theory Spec2Isabelle
  imports Complex_Main
begin

section \<open>JavaScript values\<close>

text \<open>
  The server (\<^verbatim>\<open>backend/server.js\<close>) reads JSON request bodies and JSON provider
  responses and inspects them with JavaScript's dynamic operators: truthiness (\<^verbatim>\<open>!x\<close>,
  \<^verbatim>\<open>x && y\<close>, \<^verbatim>\<open>x || y\<close>), property reads (\<^verbatim>\<open>x.name\<close>, \<^verbatim>\<open>x[0]\<close>), \<^verbatim>\<open>typeof\<close>,
  \<^verbatim>\<open>Array.isArray\<close> and \<^verbatim>\<open>.length > 10\<close>. The values are modelled as a datatype of
  parsed JSON plus \<^verbatim>\<open>undefined\<close>. Numbers are integers here (the code computes with
  counters, priorities and lengths only); a string is a list of characters and its
  \<^verbatim>\<open>.length\<close> is the length of that list; an object is the association list of its own
  members, each key once. Writes to the console are not modelled.
\<close>

datatype jsval =
    JUndefined
  | JNull
  | JBool bool
  | JNum int
  | JStr string
  | JArr "jsval list"
  | JObj "(string \<times> jsval) list"

text \<open>What a thrown exception or a rejected promise carries.\<close>

datatype error =
    ApiError string jsval      \<comment> \<open>\<^verbatim>\<open>`${provider.name} API error: ${errorText}`\<close>\<close>
  | InvalidFormat string       \<comment> \<open>\<^verbatim>\<open>`Invalid response format from ${provider.name}`\<close>\<close>
  | HFApiError string          \<comment> \<open>\<^verbatim>\<open>`HuggingFace API error: ${errorText}`\<close>\<close>
  | HFError jsval              \<comment> \<open>\<^verbatim>\<open>`HuggingFace error: ${data.error}`\<close>\<close>
  | HFInvalidFormat            \<comment> \<open>\<^verbatim>\<open>'Invalid HuggingFace response format'\<close>\<close>
  | Unsupported string         \<comment> \<open>\<^verbatim>\<open>`Unsupported provider type: ${provider.type}`\<close>\<close>
  | TypeError                  \<comment> \<open>reading a property of undefined or null, calling a non-function\<close>
  | Rejected                   \<comment> \<open>a rejected \<^verbatim>\<open>fetch\<close>, \<^verbatim>\<open>json()\<close> or \<^verbatim>\<open>text()\<close> promise\<close>

definition bind_err :: "error + 'a \<Rightarrow> ('a \<Rightarrow> error + 'b) \<Rightarrow> error + 'b" where
  "bind_err m f = (case m of Inl e \<Rightarrow> Inl e | Inr x \<Rightarrow> f x)"

text \<open>Truthiness: \<^verbatim>\<open>undefined\<close>, \<^verbatim>\<open>null\<close>, \<^verbatim>\<open>false\<close>, \<^verbatim>\<open>0\<close> and \<^verbatim>\<open>''\<close> are falsy.\<close>

fun truthy :: "jsval \<Rightarrow> bool" where
  "truthy JUndefined = False"
| "truthy JNull = False"
| "truthy (JBool b) = b"
| "truthy (JNum n) = (n \<noteq> 0)"
| "truthy (JStr s) = (s \<noteq> [])"
| "truthy (JArr xs) = True"
| "truthy (JObj kvs) = True"

text \<open>
  \<^verbatim>\<open>v.k\<close> for a property name \<open>k\<close> that is not an array index. Reading a property of
  \<^verbatim>\<open>undefined\<close> or \<^verbatim>\<open>null\<close> throws a TypeError; strings and arrays have \<^verbatim>\<open>length\<close>;
  an absent member reads as \<^verbatim>\<open>undefined\<close>.
\<close>

fun get_prop :: "jsval \<Rightarrow> string \<Rightarrow> error + jsval" where
  "get_prop JUndefined k = Inl TypeError"
| "get_prop JNull k = Inl TypeError"
| "get_prop (JObj kvs) k = Inr (case map_of kvs k of None \<Rightarrow> JUndefined | Some v \<Rightarrow> v)"
| "get_prop (JArr xs) k = Inr (if k = ''length'' then JNum (int (length xs)) else JUndefined)"
| "get_prop (JStr s) k = Inr (if k = ''length'' then JNum (int (length s)) else JUndefined)"
| "get_prop (JBool b) k = Inr JUndefined"
| "get_prop (JNum n) k = Inr JUndefined"

text \<open>\<^verbatim>\<open>v[0]\<close>: the first element of an array, the first character of a string, the
  member \<^verbatim>\<open>"0"\<close> of an object.\<close>

fun index0 :: "jsval \<Rightarrow> error + jsval" where
  "index0 JUndefined = Inl TypeError"
| "index0 JNull = Inl TypeError"
| "index0 (JArr xs) = Inr (case xs of [] \<Rightarrow> JUndefined | x # _ \<Rightarrow> x)"
| "index0 (JStr s) = Inr (case s of [] \<Rightarrow> JUndefined | c # _ \<Rightarrow> JStr [c])"
| "index0 (JObj kvs) = Inr (case map_of kvs ''0'' of None \<Rightarrow> JUndefined | Some v \<Rightarrow> v)"
| "index0 (JBool b) = Inr JUndefined"
| "index0 (JNum n) = Inr JUndefined"

fun isArray :: "jsval \<Rightarrow> bool" where
  "isArray (JArr xs) = True"
| "isArray v = False"

fun isString :: "jsval \<Rightarrow> bool" where
  \<comment> \<open>\<^verbatim>\<open>typeof v === 'string'\<close>\<close>
  "isString (JStr s) = True"
| "isString v = False"

text \<open>
  \<^verbatim>\<open>ToNumber\<close>, with \<open>None\<close> for NaN. A string converts when it is empty (to 0) or a run
  of decimal digits. JavaScript also converts a sign, a fraction, an exponent, a
  hexadecimal literal and surrounding white space; these have no value among the integers
  of this model and read as NaN here, so on such a string the comparison below is false
  where the code's may be true. The conversion is reached only from
  \<^verbatim>\<open>response.length > 10\<close> on a response that is an object with a \<^verbatim>\<open>length\<close> member
  of its own; on texts, arrays and the other values it is exact. An array converts
  through its string form: the empty array to 0, a one-element array as its element's
  string form, a longer one to NaN.
\<close>

fun digits_value :: "string \<Rightarrow> nat \<Rightarrow> nat option" where
  "digits_value [] acc = Some acc"
| "digits_value (c # cs) acc =
     (let d = (of_char c :: nat)
      in if 48 \<le> d \<and> d \<le> 57 then digits_value cs (10 * acc + (d - 48)) else None)"

fun to_number :: "jsval \<Rightarrow> int option" where
  "to_number JUndefined = None"
| "to_number JNull = Some 0"
| "to_number (JBool b) = Some (if b then 1 else 0)"
| "to_number (JNum n) = Some n"
| "to_number (JStr s) = map_option int (digits_value s 0)"
| "to_number (JArr []) = Some 0"
| "to_number (JArr [JUndefined]) = Some 0"
| "to_number (JArr [JNull]) = Some 0"
| "to_number (JArr [JBool b]) = None"
| "to_number (JArr [JNum n]) = Some n"
| "to_number (JArr [JStr s]) = map_option int (digits_value s 0)"
| "to_number (JArr [JArr xs]) = to_number (JArr xs)"
| "to_number (JArr [JObj kvs]) = None"
| "to_number (JArr (x # y # zs)) = None"
| "to_number (JObj kvs) = None"

definition js_gt :: "jsval \<Rightarrow> int \<Rightarrow> bool" where
  \<comment> \<open>\<^verbatim>\<open>v > n\<close> for a number literal \<open>n\<close>; a comparison with NaN is false\<close>
  "js_gt v n = (case to_number v of None \<Rightarrow> False | Some m \<Rightarrow> m > n)"


section \<open>Provider configuration\<close>

text \<open>
  One entry of \<^verbatim>\<open>API_PROVIDERS\<close>. The credential comes from the process environment and
  may be absent; \<^verbatim>\<open>model\<close> and \<^verbatim>\<open>maxTokens\<close> are absent for the HuggingFace entry.
\<close>

record provider =
  name :: string
  url :: string
  key :: "string option"
  model :: "string option"
  type :: string
  priority :: int
  maxTokens :: "nat option"
  description :: string

definition API_PROVIDERS :: "(string \<Rightarrow> string option) \<Rightarrow> provider list" where
  "API_PROVIDERS process_env =
    [ \<lparr> name = ''Groq-Ultra-Fast'',
        url = ''https://api.groq.com/openai/v1/chat/completions'',
        key = process_env ''GROQ_API_KEY'',
        model = Some ''mixtral-8x7b-32768'',
        type = ''openai-compatible'',
        priority = 1,
        maxTokens = Some 2000,
        description = ''Ultra-fast Mixtral responses'' \<rparr>,
      \<lparr> name = ''DeepSeek-Intelligence'',
        url = ''https://api.deepseek.com/v1/chat/completions'',
        key = process_env ''DEEPSEEK_API_KEY'',
        model = Some ''deepseek-chat'',
        type = ''openai-compatible'',
        priority = 2,
        maxTokens = Some 2000,
        description = ''Advanced reasoning AI'' \<rparr>,
      \<lparr> name = ''Together-AI-Llama'',
        url = ''https://api.together.xyz/v1/chat/completions'',
        key = process_env ''TOGETHER_API_KEY'',
        model = Some ''meta-llama/Meta-Llama-3.1-8B-Instruct-Turbo'',
        type = ''openai-compatible'',
        priority = 3,
        maxTokens = Some 2000,
        description = ''Latest Llama 3.1 model'' \<rparr>,
      \<lparr> name = ''HuggingFace-Backup'',
        url = ''https://api-inference.huggingface.co/models/microsoft/DialoGPT-large'',
        key = process_env ''HUGGINGFACE_API_KEY'',
        model = None,
        type = ''huggingface'',
        priority = 4,
        maxTokens = None,
        description = ''Reliable HuggingFace backup'' \<rparr> ]"

definition eligible :: "provider \<Rightarrow> bool" where
  \<comment> \<open>\<^verbatim>\<open>p => p.key && p.key.length > 10\<close>\<close>
  "eligible p = (case key p of None \<Rightarrow> False | Some k \<Rightarrow> k \<noteq> [] \<and> length k > 10)"

definition sortedProviders :: "provider list \<Rightarrow> provider list" where
  \<comment> \<open>\<^verbatim>\<open>.filter(...).sort((a, b) => a.priority - b.priority)\<close>; \<^verbatim>\<open>Array.prototype.sort\<close>
      is stable, and so is \<^const>\<open>sort_key\<close>\<close>
  "sortedProviders providers = sort_key priority (filter eligible providers)"

section \<open>The upstream world\<close>

text \<open>
  What \<^verbatim>\<open>fetch\<close> sends and what it answers. A response has a status, the result of
  \<^verbatim>\<open>response.json()\<close> (\<open>None\<close> when the promise rejects) and the result of
  \<^verbatim>\<open>response.text()\<close> as the first read of the body (likewise). \<^verbatim>\<open>fetch\<close> itself
  answers \<open>None\<close> when its promise rejects: a network failure or the 30 second timeout.
\<close>

datatype payload =
    ChatCompletion "string option" "jsval list" nat rat bool
      \<comment> \<open>\<^verbatim>\<open>model\<close>, \<^verbatim>\<open>messages\<close>, \<^verbatim>\<open>max_tokens\<close>, \<^verbatim>\<open>temperature\<close>, \<^verbatim>\<open>stream\<close>\<close>
  | TextGeneration string nat rat bool bool rat
      \<comment> \<open>\<^verbatim>\<open>inputs\<close>, and the \<^verbatim>\<open>parameters\<close>: \<^verbatim>\<open>max_length\<close>, \<^verbatim>\<open>temperature\<close>,
          \<^verbatim>\<open>do_sample\<close>, \<^verbatim>\<open>return_full_text\<close>, \<^verbatim>\<open>repetition_penalty\<close>\<close>

record fetch_request =
  req_url :: string
  req_headers :: "(string \<times> string) list"
  req_body :: payload

record http_response =
  status :: nat
  json :: "jsval option"
  text_body :: "string option"   \<comment> \<open>\<^verbatim>\<open>response.text()\<close>\<close>

definition ok :: "http_response \<Rightarrow> bool" where
  \<comment> \<open>\<^verbatim>\<open>response.ok\<close>\<close>
  "ok response = (200 \<le> status response \<and> status response \<le> 299)"

record env =
  fetch :: "fetch_request \<Rightarrow> http_response option"
  FRONTEND_URL :: "string option"   \<comment> \<open>\<^verbatim>\<open>process.env.FRONTEND_URL\<close>\<close>
  date_now :: int                    \<comment> \<open>\<^verbatim>\<open>Date.now()\<close> when the handler answers\<close>
  date_iso :: string                 \<comment> \<open>\<^verbatim>\<open>new Date().toISOString()\<close>\<close>
  middleware_now :: int              \<comment> \<open>\<^verbatim>\<open>Date.now()\<close> when the start-time middleware runs\<close>

text \<open>What a request did: the providers handed to \<^verbatim>\<open>callAIProvider\<close> and the requests
  handed to \<^verbatim>\<open>fetch\<close>, in order.\<close>

datatype event = Attempt provider | Fetch fetch_request

definition do_fetch ::
  "env \<Rightarrow> fetch_request \<Rightarrow> event list \<Rightarrow> (error + http_response) \<times> event list" where
  "do_fetch e r trace =
     ((case fetch e r of None \<Rightarrow> Inl Rejected | Some response \<Rightarrow> Inr response),
      trace @ [Fetch r])"


section \<open>Provider adapters\<close>

fun str_includes :: "string \<Rightarrow> string \<Rightarrow> bool" where
  \<comment> \<open>\<^verbatim>\<open>s.includes(sub)\<close>\<close>
  "str_includes [] sub = (sub = [])"
| "str_includes (c # cs) sub = (take (length sub) (c # cs) = sub \<or> str_includes cs sub)"

definition bearer :: "provider \<Rightarrow> string" where
  \<comment> \<open>\<^verbatim>\<open>`Bearer ${provider.key}`\<close>\<close>
  "bearer p = ''Bearer '' @ (case key p of None \<Rightarrow> ''undefined'' | Some k \<Rightarrow> k)"

definition openai_request :: "env \<Rightarrow> provider \<Rightarrow> jsval list \<Rightarrow> fetch_request" where
  "openai_request e p messages =
     \<lparr> req_url = url p,
       req_headers =
         [(''Content-Type'', ''application/json''),
          (''Authorization'', bearer p),
          (''User-Agent'', ''JARVIS-AI/2.0'')] @
         (if str_includes (name p) ''OpenRouter''
          then [(''HTTP-Referer'',
                 (case FRONTEND_URL e of
                    None \<Rightarrow> ''https://yourusername.github.io''
                  | Some u \<Rightarrow> if u = [] then ''https://yourusername.github.io'' else u)),
                (''X-Title'', ''JARVIS AI Educational Assistant'')]
          else []),
       req_body =
         ChatCompletion (model p) messages
           (case maxTokens p of None \<Rightarrow> 2000 | Some n \<Rightarrow> if n = 0 then 2000 else n)
           (7 / 10) False \<rparr>"

text \<open>
  The message of a response that is not \<^verbatim>\<open>ok\<close> (lines 256 to 265):
  \<^verbatim>\<open>errorData.error?.message || errorData.message || 'Unknown error'\<close> when the body parses.
  When anything in that block throws, the \<^verbatim>\<open>catch\<close> evaluates
  \<^verbatim>\<open>await response.text() || `HTTP ${status}`\<close>; the body has been read by
  \<^verbatim>\<open>response.json()\<close> by then, a second read rejects, and the rejection leaves the
  function in place of the message.
\<close>

definition openai_error_text :: "http_response \<Rightarrow> error + jsval" where
  "openai_error_text response =
     (let tried =
        (case json response of
           None \<Rightarrow> Inl Rejected
         | Some errorData \<Rightarrow>
             bind_err (get_prop errorData ''error'') (\<lambda>err.
             bind_err (if err = JUndefined \<or> err = JNull then Inr JUndefined
                       else get_prop err ''message'') (\<lambda>m1.
             if truthy m1 then Inr m1
             else bind_err (get_prop errorData ''message'') (\<lambda>m2.
                  if truthy m2 then Inr m2 else Inr (JStr ''Unknown error'')))))
      in case tried of
           Inr errorText \<Rightarrow> Inr errorText
         | Inl thrown \<Rightarrow> Inl Rejected)"

text \<open>
  Lines 267 to 273, on the parsed body \<open>data\<close>:
  \<^verbatim>\<open>if (!data.choices || !data.choices[0] || !data.choices.message) throw ...;\<close>
  \<^verbatim>\<open>return data.choices.message.content;\<close>
\<close>

definition openai_extract :: "provider \<Rightarrow> jsval \<Rightarrow> error + jsval" where
  "openai_extract p data =
     bind_err (get_prop data ''choices'') (\<lambda>choices.
     if \<not> truthy choices then Inl (InvalidFormat (name p))
     else bind_err (index0 choices) (\<lambda>first.
          if \<not> truthy first then Inl (InvalidFormat (name p))
          else bind_err (get_prop choices ''message'') (\<lambda>message.
               if \<not> truthy message then Inl (InvalidFormat (name p))
               else get_prop message ''content'')))"

definition callOpenAICompatible ::
  "env \<Rightarrow> provider \<Rightarrow> jsval list \<Rightarrow> event list \<Rightarrow> (error + jsval) \<times> event list" where
  "callOpenAICompatible e p messages trace =
     (let (fetched, trace') = do_fetch e (openai_request e p messages) trace
      in (bind_err fetched (\<lambda>response.
            if \<not> ok response
            then bind_err (openai_error_text response) (\<lambda>errorText.
                   Inl (ApiError (name p) errorText))
            else bind_err (case json response of None \<Rightarrow> Inl Rejected | Some d \<Rightarrow> Inr d)
                   (openai_extract p)),
          trace'))"

definition hf_request :: "provider \<Rightarrow> string \<Rightarrow> fetch_request" where
  "hf_request p message =
     \<lparr> req_url = url p,
       req_headers =
         [(''Authorization'', bearer p),
          (''Content-Type'', ''application/json''),
          (''User-Agent'', ''JARVIS-AI/2.0'')],
       req_body = TextGeneration message 500 (7 / 10) True False (11 / 10) \<rparr>"

text \<open>
  Lines 304 to 312, on the parsed body \<open>data\<close>:
  \<^verbatim>\<open>if (Array.isArray(data) && data[0] && data.generated_text) return data.generated_text;\<close>
  \<^verbatim>\<open>else if (data.generated_text) return data.generated_text;\<close>
  \<^verbatim>\<open>else if (data.error) throw new Error(`HuggingFace error: ${data.error}`);\<close>
  \<^verbatim>\<open>throw new Error('Invalid HuggingFace response format');\<close>
\<close>

definition hf_extract :: "jsval \<Rightarrow> error + jsval" where
  "hf_extract data =
     bind_err (if isArray data
               then bind_err (index0 data) (\<lambda>first.
                      if truthy first
                      then bind_err (get_prop data ''generated_text'') (\<lambda>g. Inr (truthy g))
                      else Inr False)
               else Inr False) (\<lambda>first_branch.
     if first_branch then get_prop data ''generated_text''
     else bind_err (get_prop data ''generated_text'') (\<lambda>generated_text.
          if truthy generated_text then Inr generated_text
          else bind_err (get_prop data ''error'') (\<lambda>err.
               if truthy err then Inl (HFError err) else Inl HFInvalidFormat)))"

definition callHuggingFace ::
  "env \<Rightarrow> provider \<Rightarrow> string \<Rightarrow> event list \<Rightarrow> (error + jsval) \<times> event list" where
  "callHuggingFace e p message trace =
     (let (fetched, trace') = do_fetch e (hf_request p message) trace
      in (bind_err fetched (\<lambda>response.
            if \<not> ok response
            then Inl (HFApiError (case text_body response of
                                    None \<Rightarrow> ''Unknown error'' | Some t \<Rightarrow> t))
            else bind_err (case json response of None \<Rightarrow> Inl Rejected | Some d \<Rightarrow> Inr d)
                   hf_extract),
          trace'))"

definition systemPrompt :: string where
  "systemPrompt =
     ''You are JARVIS (Just A Rather Very Intelligent System), an advanced AI assistant with unlimited knowledge and capabilities.\<newline>\<newline>Guidelines:\<newline>- Provide helpful, accurate, and detailed responses\<newline>- Be engaging, supportive, and intelligent\<newline>- Use clear formatting with **bold** and *italic* when helpful\<newline>- No topic restrictions - answer any question asked\<newline>- Include examples and real-world applications when relevant\<newline>- Be encouraging and positive in your responses\<newline>\<newline>You can discuss any topic without limitations. Provide comprehensive, intelligent responses that demonstrate your advanced capabilities.''"

text \<open>
  \<^verbatim>\<open>[...history.slice(-6)]\<close>: the last six elements of an array (all of them when there are
  fewer), the last six characters of a string, one string each; any other value has no
  \<^verbatim>\<open>slice\<close> method and the call throws a TypeError.
\<close>

fun slice_last6 :: "jsval \<Rightarrow> error + jsval list" where
  "slice_last6 (JArr xs) = Inr (drop (length xs - 6) xs)"
| "slice_last6 (JStr s) = Inr (map (\<lambda>c. JStr [c]) (drop (length s - 6) s))"
| "slice_last6 v = Inl TypeError"

definition system_message :: jsval where
  \<comment> \<open>\<^verbatim>\<open>{ role: 'system', content: systemPrompt }\<close>\<close>
  "system_message = JObj [(''role'', JStr ''system''), (''content'', JStr systemPrompt)]"

definition user_message :: "string \<Rightarrow> jsval" where
  \<comment> \<open>\<^verbatim>\<open>{ role: 'user', content: message }\<close>\<close>
  "user_message message = JObj [(''role'', JStr ''user''), (''content'', JStr message)]"

definition build_messages :: "string \<Rightarrow> jsval \<Rightarrow> error + jsval list" where
  \<comment> \<open>lines 215 to 219\<close>
  "build_messages message history =
     bind_err (slice_last6 history) (\<lambda>recent.
       Inr ([system_message] @ recent @ [user_message message]))"

definition callAIProvider ::
  "env \<Rightarrow> provider \<Rightarrow> string \<Rightarrow> jsval \<Rightarrow> event list \<Rightarrow> (error + jsval) \<times> event list" where
  "callAIProvider e p message history trace =
     (case build_messages message history of
        Inl err \<Rightarrow> (Inl err, trace)
      | Inr messages \<Rightarrow>
          if type p = ''openai-compatible'' then callOpenAICompatible e p messages trace
          else if type p = ''huggingface'' then callHuggingFace e p message trace
          else (Inl (Unsupported (type p)), trace))"


section \<open>The chat endpoint\<close>

text \<open>
  A request as the handlers see it, after the JSON body parser: which registered route its
  method and path match, the two sources of the client address, the parsed body, and the
  \<^verbatim>\<open>startTime\<close> property, which is \<^verbatim>\<open>undefined\<close> (\<open>None\<close>) until something sets it.
\<close>

datatype route = GET_health | POST_api_chat | Other_route

record request =
  route :: route
  ip :: "string option"              \<comment> \<open>\<^verbatim>\<open>req.ip\<close>\<close>
  remoteAddress :: "string option"   \<comment> \<open>\<^verbatim>\<open>req.connection.remoteAddress\<close>\<close>
  body :: jsval                      \<comment> \<open>\<^verbatim>\<open>req.body\<close>\<close>
  startTime :: "int option"          \<comment> \<open>\<^verbatim>\<open>req.startTime\<close>\<close>

text \<open>
  A reply is a status code and a JSON body. \<^verbatim>\<open>processing_time_ms\<close> is a JavaScript
  number; \<open>None\<close> is NaN, which \<^verbatim>\<open>res.json\<close> writes as \<^verbatim>\<open>null\<close>.
\<close>

datatype reply_body =
    ErrorBody string string "string list option"
      \<comment> \<open>\<^verbatim>\<open>error\<close>, \<^verbatim>\<open>message\<close>, \<^verbatim>\<open>providers_tried\<close> when present\<close>
  | ChatBody jsval string string string "int option"
      \<comment> \<open>\<^verbatim>\<open>response\<close>, \<^verbatim>\<open>provider\<close>, \<^verbatim>\<open>model\<close>, \<^verbatim>\<open>timestamp\<close>, \<^verbatim>\<open>processing_time_ms\<close>\<close>
  | HealthBody nat nat
      \<comment> \<open>\<^verbatim>\<open>apis_configured\<close>, \<^verbatim>\<open>apis_total\<close> (the other members are not modelled)\<close>
  | NotFoundBody
      \<comment> \<open>the framework's answer when no route matches\<close>

datatype reply = Reply nat reply_body

fun status_of :: "reply \<Rightarrow> nat" where
  "status_of (Reply code b) = code"

fun body_of :: "reply \<Rightarrow> reply_body" where
  "body_of (Reply code b) = b"

type_synonym counts = "string option \<rightharpoonup> nat"

definition clientIP :: "request \<Rightarrow> string option" where
  \<comment> \<open>\<^verbatim>\<open>req.ip || req.connection.remoteAddress\<close>; \<open>None\<close> is the key \<^verbatim>\<open>undefined\<close>\<close>
  "clientIP req =
     (case ip req of
        None \<Rightarrow> remoteAddress req
      | Some a \<Rightarrow> if a \<noteq> [] then Some a else remoteAddress req)"

definition window_reset :: "counts \<Rightarrow> counts" where
  \<comment> \<open>\<^verbatim>\<open>setInterval(() => requestCounts.clear(), 60000)\<close>\<close>
  "window_reset requestCounts = Map.empty"

definition current_count :: "counts \<Rightarrow> string option \<Rightarrow> nat" where
  \<comment> \<open>\<^verbatim>\<open>requestCounts.get(clientIP) || 0\<close>\<close>
  "current_count requestCounts client = (case requestCounts client of None \<Rightarrow> 0 | Some c \<Rightarrow> c)"

definition accepted :: "jsval \<Rightarrow> bool" where
  \<comment> \<open>\<^verbatim>\<open>response && response.length > 10\<close>\<close>
  "accepted response =
     (truthy response \<and>
      (case get_prop response ''length'' of Inl err \<Rightarrow> False | Inr n \<Rightarrow> js_gt n 10))"

text \<open>
  The loop of lines 150 to 168. An exception inside the \<^verbatim>\<open>try\<close> is logged and the loop
  goes on; a response that is not accepted falls out of the \<^verbatim>\<open>if\<close> and the loop goes on.
\<close>

fun try_providers ::
  "env \<Rightarrow> provider list \<Rightarrow> string \<Rightarrow> jsval \<Rightarrow> event list
     \<Rightarrow> (provider \<times> jsval) option \<times> event list" where
  "try_providers e [] message history trace = (None, trace)"
| "try_providers e (p # ps) message history trace =
     (case callAIProvider e p message history (trace @ [Attempt p]) of
        (Inr response, trace') \<Rightarrow>
          if accepted response then (Some (p, response), trace')
          else try_providers e ps message history trace'
      | (Inl err, trace') \<Rightarrow> try_providers e ps message history trace')"

definition destructure :: "jsval \<Rightarrow> error + jsval \<times> jsval" where
  \<comment> \<open>\<^verbatim>\<open>const { message, history } = req.body\<close>\<close>
  "destructure b =
     bind_err (get_prop b ''message'') (\<lambda>message.
     bind_err (get_prop b ''history'') (\<lambda>history. Inr (message, history)))"

fun string_of :: "jsval \<Rightarrow> string" where
  "string_of (JStr s) = s"
| "string_of v = []"

definition history_or_empty :: "jsval \<Rightarrow> jsval" where
  \<comment> \<open>\<^verbatim>\<open>history || []\<close>\<close>
  "history_or_empty history = (if truthy history then history else JArr [])"

definition chat_handler ::
  "env \<Rightarrow> provider list \<Rightarrow> counts \<Rightarrow> request \<Rightarrow> reply \<times> counts \<times> event list" where
  "chat_handler e providers requestCounts req =
     (let count = current_count requestCounts (clientIP req)
      in if count > 60
         then (Reply 429 (ErrorBody ''Rate limit exceeded''
                            ''Please wait before making more requests'' None),
               requestCounts, [])
         else
           let requestCounts' = requestCounts(clientIP req \<mapsto> count + 1)
           in case destructure (body req) of
                Inl err \<Rightarrow>
                  (Reply 500 (ErrorBody ''Internal server error''
                                ''An unexpected error occurred. Please try again.'' None),
                   requestCounts', [])
              | Inr (message, history) \<Rightarrow>
                  if \<not> truthy message \<or> \<not> isString message
                  then (Reply 400 (ErrorBody ''Message is required''
                                     ''Please provide a valid message string'' None),
                        requestCounts', [])
                  else if length (string_of message) > 10000
                  then (Reply 400 (ErrorBody ''Message too long''
                                     ''Please keep messages under 10,000 characters'' None),
                        requestCounts', [])
                  else
                    let sorted = sortedProviders providers
                    in if length sorted = 0
                       then (Reply 503 (ErrorBody ''No API providers configured''
                               ''Server configuration error - please contact administrator''
                               None),
                             requestCounts', [])
                       else
                         (case try_providers e sorted (string_of message)
                                 (history_or_empty history) [] of
                            (Some (p, response), trace) \<Rightarrow>
                              (Reply 200
                                 (ChatBody response (name p)
                                    (case model p of
                                       None \<Rightarrow> ''Unknown''
                                     | Some m \<Rightarrow> if m \<noteq> [] then m else ''Unknown'')
                                    (date_iso e)
                                    (case startTime req of
                                       None \<Rightarrow> None
                                     | Some t \<Rightarrow> Some (date_now e - t))),
                               requestCounts', trace)
                          | (None, trace) \<Rightarrow>
                              (Reply 503
                                 (ErrorBody ''All AI providers are currently unavailable''
                                    ''Please try again in a moment. If the issue persists, contact support.''
                                    (Some (map name sorted))),
                               requestCounts', trace)))"

section \<open>The application\<close>

text \<open>
  The handlers in the order in which \<^verbatim>\<open>server.js\<close> registers them on the application:
  \<^verbatim>\<open>app.get('/health', ...)\<close> (line 92), \<^verbatim>\<open>app.post('/api/chat', ...)\<close> (line 106), and the
  middleware that sets \<^verbatim>\<open>req.startTime\<close> and calls \<^verbatim>\<open>next()\<close> (line 187, under the
  comment "Middleware to track request start time"). A request
  walks the list from the front; a route that matches answers and ends the walk (neither
  route handler calls \<^verbatim>\<open>next\<close>), a middleware passes the request on. The CORS
  middleware and the JSON body parser (lines 11 to 17) stand in front of the list. The
  parser hands a body that it refuses (malformed, neither an object nor an array, over
  10mb) to the error middleware of line 193, which answers 500 before any route and
  before any count; such a request never reaches the list, and a \<^typ>\<open>request\<close> is one
  that the parser has let through. Nothing else is passed to the error middleware.
\<close>

datatype layer = HealthRoute | ChatRoute | StartTimeMiddleware

definition app :: "layer list" where
  "app = [HealthRoute, ChatRoute, StartTimeMiddleware]"

fun dispatch ::
  "env \<Rightarrow> provider list \<Rightarrow> layer list \<Rightarrow> counts \<Rightarrow> request
     \<Rightarrow> reply \<times> counts \<times> event list" where
  "dispatch e providers [] requestCounts req = (Reply 404 NotFoundBody, requestCounts, [])"
| "dispatch e providers (HealthRoute # rest) requestCounts req =
     (if route req = GET_health
      then (Reply 200 (HealthBody (length (filter eligible providers)) (length providers)),
            requestCounts, [])
      else dispatch e providers rest requestCounts req)"
| "dispatch e providers (ChatRoute # rest) requestCounts req =
     (if route req = POST_api_chat
      then chat_handler e providers requestCounts req
      else dispatch e providers rest requestCounts req)"
| "dispatch e providers (StartTimeMiddleware # rest) requestCounts req =
     dispatch e providers rest requestCounts (req\<lparr>startTime := Some (middleware_now e)\<rparr>)"

definition serve ::
  "env \<Rightarrow> provider list \<Rightarrow> counts \<Rightarrow> request \<Rightarrow> reply \<times> counts \<times> event list" where
  \<comment> \<open>a request object arrives without a \<^verbatim>\<open>startTime\<close> property\<close>
  "serve e providers requestCounts req =
     dispatch e providers app requestCounts (req\<lparr>startTime := None\<rparr>)"

text \<open>Requests served one after the other within one rate window.\<close>

fun serve_all ::
  "env \<Rightarrow> provider list \<Rightarrow> counts \<Rightarrow> request list \<Rightarrow> reply list \<times> counts" where
  "serve_all e providers requestCounts [] = ([], requestCounts)"
| "serve_all e providers requestCounts (req # reqs) =
     (case serve e providers requestCounts req of
        (r, requestCounts', trace) \<Rightarrow>
          (case serve_all e providers requestCounts' reqs of
             (rs, requestCounts'') \<Rightarrow> (r # rs, requestCounts'')))"


section \<open>Reading a trace and an adapter's outcome\<close>

fun attempts :: "event list \<Rightarrow> provider list" where
  "attempts [] = []"
| "attempts (Attempt p # evs) = p # attempts evs"
| "attempts (Fetch r # evs) = attempts evs"

fun fetches :: "event list \<Rightarrow> fetch_request list" where
  "fetches [] = []"
| "fetches (Attempt p # evs) = fetches evs"
| "fetches (Fetch r # evs) = r # fetches evs"

definition outcome :: "env \<Rightarrow> string \<Rightarrow> jsval \<Rightarrow> provider \<Rightarrow> error + jsval" where
  \<comment> \<open>what \<^verbatim>\<open>await callAIProvider(provider, message, history)\<close> yields\<close>
  "outcome e message history p = fst (callAIProvider e p message history [])"

definition succeeds :: "env \<Rightarrow> string \<Rightarrow> jsval \<Rightarrow> provider \<Rightarrow> bool" where
  \<comment> \<open>the attempt returns, and its result passes the test of line 155\<close>
  "succeeds e message history p =
     (case outcome e message history p of Inl err \<Rightarrow> False | Inr response \<Rightarrow> accepted response)"




text \<open>The requests that one attempt on a provider hands to \<^verbatim>\<open>fetch\<close>.\<close>

definition sent :: "env \<Rightarrow> provider \<Rightarrow> string \<Rightarrow> jsval \<Rightarrow> fetch_request list" where
  "sent e p m h =
     (case build_messages m h of
        Inl err \<Rightarrow> []
      | Inr msgs \<Rightarrow>
          if type p = ''openai-compatible'' then [openai_request e p msgs]
          else if type p = ''huggingface'' then [hf_request p m]
          else [])"

section \<open>Scenarios\<close>

text \<open>
  The body \<^verbatim>\<open>{"choices":[{"message":{"content":"Hello there, how can I help?"}}]}\<close>, a
  process environment that holds the first two credentials only, and an upstream world in
  which the first provider answers 503 and every other one answers 200 with that body.
\<close>

definition hello_body :: jsval where
  "hello_body =
     JObj [(''choices'',
            JArr [JObj [(''message'',
                         JObj [(''content'', JStr ''Hello there, how can I help?'')])]])]"

definition two_keys :: "string \<Rightarrow> string option" where
  "two_keys v =
     (if v = ''GROQ_API_KEY'' then Some ''gsk_0123456789abcdef''
      else if v = ''DEEPSEEK_API_KEY'' then Some ''sk-0123456789abcdef''
      else None)"

definition outage_fetch :: "fetch_request \<Rightarrow> http_response option" where
  "outage_fetch r =
     (if req_url r = ''https://api.groq.com/openai/v1/chat/completions''
      then Some \<lparr>status = 503, json = None, text_body = Some ''Service Unavailable''\<rparr>
      else Some \<lparr>status = 200, json = Some hello_body, text_body = None\<rparr>)"

definition outage_env :: env where
  "outage_env =
     \<lparr>fetch = outage_fetch, FRONTEND_URL = None, date_now = 1000,
      date_iso = ''2024-01-01T00:00:00.000Z'', middleware_now = 990\<rparr>"

definition hi_request :: request where
  "hi_request =
     \<lparr>route = POST_api_chat, ip = Some ''10.0.0.1'', remoteAddress = None,
      body = JObj [(''message'', JStr ''Hi'')], startTime = None\<rparr>"

text \<open>
  A process environment that holds the HuggingFace credential only, an upstream world that
  answers every request with 200 and the bare object
  \<^verbatim>\<open>{"generated_text":"Hello there, how can I help?"}\<close>, a request whose message is one
  space, and a request whose body is \<^verbatim>\<open>{}\<close>.
\<close>

definition hf_key :: "string \<Rightarrow> string option" where
  "hf_key v = (if v = ''HUGGINGFACE_API_KEY'' then Some ''hf_0123456789abcdef'' else None)"

definition hf_up_env :: env where
  "hf_up_env =
     \<lparr>fetch = (\<lambda>r. Some \<lparr>status = 200,
                           json = Some (JObj [(''generated_text'',
                                               JStr ''Hello there, how can I help?'')]),
                           text_body = None\<rparr>),
      FRONTEND_URL = None, date_now = 1000,
      date_iso = ''2024-01-01T00:00:00.000Z'', middleware_now = 990\<rparr>"

definition blank_request :: request where
  "blank_request =
     \<lparr>route = POST_api_chat, ip = Some ''10.0.0.1'', remoteAddress = None,
      body = JObj [(''message'', JStr '' '')], startTime = None\<rparr>"

definition bare_request :: request where
  "bare_request =
     \<lparr>route = POST_api_chat, ip = Some ''10.0.0.1'', remoteAddress = None,
      body = JObj [], startTime = None\<rparr>"







text \<open>A history of seven turns and a request that carries it.\<close>

definition turn :: "string \<Rightarrow> string \<Rightarrow> jsval" where
  "turn r c = JObj [(''role'', JStr r), (''content'', JStr c)]"

definition seven_turns :: "jsval list" where
  "seven_turns =
     [turn ''user'' ''one'', turn ''assistant'' ''two'', turn ''user'' ''three'',
      turn ''assistant'' ''four'', turn ''user'' ''five'', turn ''assistant'' ''six'',
      turn ''user'' ''seven'']"

definition long_history_request :: request where
  "long_history_request =
     \<lparr>route = POST_api_chat, ip = Some ''10.0.0.1'', remoteAddress = None,
      body = JObj [(''message'', JStr ''Hi''), (''history'', JArr seven_turns)],
      startTime = None\<rparr>"

section \<open>Properties\<close>

subsection \<open>Facts about the handler\<close>

lemma chat_handler_counts:
  "fst (snd (chat_handler e ps rc req)) =
     (if current_count rc (clientIP req) > 60 then rc
      else rc(clientIP req \<mapsto> current_count rc (clientIP req) + 1))"
  by (simp add: chat_handler_def Let_def split: sum.splits prod.splits option.splits)

lemma chat_handler_429:
  "status_of (fst (chat_handler e ps rc req)) = 429 \<longleftrightarrow> current_count rc (clientIP req) > 60"
  by (simp add: chat_handler_def Let_def split: sum.splits prod.splits option.splits)

lemma chat_handler_limited:
  "current_count rc (clientIP req) > 60 \<Longrightarrow> snd (snd (chat_handler e ps rc req)) = []"
  by (simp add: chat_handler_def Let_def)

lemma chat_handler_invalid:
  assumes "\<not> current_count rc (clientIP req) > 60"
      and "destructure (body req) = Inr (message, history)"
      and "message = JUndefined \<or> \<not> isString message \<or> message = JStr []
             \<or> length (string_of message) > 10000"
  shows "status_of (fst (chat_handler e ps rc req)) = 400
         \<and> snd (snd (chat_handler e ps rc req)) = []"
proof (cases "\<not> truthy message \<or> \<not> isString message")
  case True
  with assms(1,2) show ?thesis
    by (simp add: chat_handler_def Let_def)
next
  case False
  with assms(3) have "length (string_of message) > 10000"
    by (cases message) auto
  with False assms(1,2) show ?thesis
    by (simp add: chat_handler_def Let_def)
qed

lemma chat_handler_no_time:
  "body_of (fst (chat_handler e ps rc (req\<lparr>startTime := None\<rparr>)))
     \<noteq> ChatBody response prov mdl ts (Some t)"
  by (simp add: chat_handler_def Let_def split: sum.splits prod.splits option.splits)

lemma serve_chat:
  "route req = POST_api_chat \<Longrightarrow>
     serve e ps rc req = chat_handler e ps rc (req\<lparr>startTime := None\<rparr>)"
  by (simp add: serve_def app_def)

lemma clientIP_startTime: "clientIP (req\<lparr>startTime := t\<rparr>) = clientIP req"
  by (simp add: clientIP_def split: option.splits)

lemma serve_all_Cons:
  "fst (serve_all e ps rc (r # rs)) =
     fst (serve e ps rc r) # fst (serve_all e ps (fst (snd (serve e ps rc r))) rs)"
  "snd (serve_all e ps rc (r # rs)) = snd (serve_all e ps (fst (snd (serve e ps rc r))) rs)"
  by (simp_all split: prod.splits)

lemma serve_chat_count:
  assumes "route r = POST_api_chat"
  shows "current_count (fst (snd (serve e ps rc r))) (clientIP r) =
           (if current_count rc (clientIP r) > 60 then current_count rc (clientIP r)
            else current_count rc (clientIP r) + 1)"
  by (simp add: serve_chat [OF assms] chat_handler_counts clientIP_startTime current_count_def)

lemma serve_chat_429:
  assumes "route r = POST_api_chat"
  shows "status_of (fst (serve e ps rc r)) = 429 \<longleftrightarrow> current_count rc (clientIP r) > 60"
  by (simp add: serve_chat [OF assms] chat_handler_429 clientIP_startTime)

text \<open>The counter and the replies after \<open>n\<close> requests of one client in one window.\<close>

lemma serve_all_replicate_count:
  assumes "route r = POST_api_chat"
  shows "current_count (snd (serve_all e ps rc (replicate n r))) (clientIP r)
           = (if current_count rc (clientIP r) > 60 then current_count rc (clientIP r)
              else min (current_count rc (clientIP r) + n) 61)"
proof (induction n arbitrary: rc)
  case 0
  then show ?case by simp
next
  case (Suc n)
  let ?rc' = "fst (snd (serve e ps rc r))"
  have "current_count (snd (serve_all e ps rc (replicate (Suc n) r))) (clientIP r)
          = current_count (snd (serve_all e ps ?rc' (replicate n r))) (clientIP r)"
    by (simp only: replicate_Suc serve_all_Cons)
  also have "\<dots> = (if current_count ?rc' (clientIP r) > 60 then current_count ?rc' (clientIP r)
              else min (current_count ?rc' (clientIP r) + n) 61)"
    by (rule Suc.IH)
  also have "\<dots> = (if current_count rc (clientIP r) > 60 then current_count rc (clientIP r)
              else min (current_count rc (clientIP r) + Suc n) 61)"
    unfolding serve_chat_count [OF assms] by simp
  finally show ?case .
qed

lemma serve_all_replicate_status:
  assumes "route r = POST_api_chat"
  shows "map (\<lambda>x. status_of x = 429) (fst (serve_all e ps rc (replicate n r)))
           = map (\<lambda>i. current_count rc (clientIP r) + i > 60) [0..<n]"
proof (induction n arbitrary: rc)
  case 0
  then show ?case by simp
next
  case (Suc n)
  let ?rc' = "fst (snd (serve e ps rc r))"
  let ?c = "current_count rc (clientIP r)"
  have upt: "[0..<Suc n] = 0 # map Suc [0..<n]"
    by (simp only: map_Suc_upt upt_conv_Cons [OF zero_less_Suc])
  have tl: "map (\<lambda>i. current_count ?rc' (clientIP r) + i > 60) [0..<n]
              = map (\<lambda>i. ?c + Suc i > 60) [0..<n]"
    unfolding serve_chat_count [OF assms] by simp
  have "map (\<lambda>x. status_of x = 429) (fst (serve_all e ps rc (replicate (Suc n) r)))
          = (status_of (fst (serve e ps rc r)) = 429)
            # map (\<lambda>x. status_of x = 429) (fst (serve_all e ps ?rc' (replicate n r)))"
    by (simp only: replicate_Suc serve_all_Cons list.map)
  also have "\<dots> = (?c > 60) # map (\<lambda>i. ?c + Suc i > 60) [0..<n]"
    by (simp only: Suc.IH tl serve_chat_429 [OF assms])
  also have "\<dots> = map (\<lambda>i. ?c + i > 60) [0..<Suc n]"
    unfolding upt by (simp add: o_def)
  finally show ?case .
qed

subsection \<open>Facts about the adapters, the loop and the sort\<close>

lemma attempts_append: "attempts (xs @ ys) = attempts xs @ attempts ys"
  by (induction xs rule: attempts.induct) simp_all

lemma fetches_append: "fetches (xs @ ys) = fetches xs @ fetches ys"
  by (induction xs rule: fetches.induct) simp_all

lemma callOpenAICompatible_trace:
  "snd (callOpenAICompatible e p msgs tr) = tr @ [Fetch (openai_request e p msgs)]"
  by (simp add: callOpenAICompatible_def do_fetch_def)

lemma callOpenAICompatible_fst:
  "fst (callOpenAICompatible e p msgs tr) = fst (callOpenAICompatible e p msgs [])"
  by (simp add: callOpenAICompatible_def do_fetch_def)

lemma callHuggingFace_trace:
  "snd (callHuggingFace e p m tr) = tr @ [Fetch (hf_request p m)]"
  by (simp add: callHuggingFace_def do_fetch_def)

lemma callHuggingFace_fst:
  "fst (callHuggingFace e p m tr) = fst (callHuggingFace e p m [])"
  by (simp add: callHuggingFace_def do_fetch_def)

lemma callAIProvider_fst:
  "fst (callAIProvider e p m h tr) = outcome e m h p"
  unfolding outcome_def callAIProvider_def
  using callOpenAICompatible_fst [of e p _ tr] callHuggingFace_fst [of e p m tr]
  by (simp split: sum.splits)

lemma callAIProvider_trace:
  "snd (callAIProvider e p m h tr) = tr @ map Fetch (sent e p m h)"
  unfolding callAIProvider_def sent_def
  by (simp add: callOpenAICompatible_trace callHuggingFace_trace split: sum.splits)

lemma callAIProvider_eq:
  "callAIProvider e p m h tr = (outcome e m h p, tr @ map Fetch (sent e p m h))"
  by (simp add: prod_eq_iff callAIProvider_fst callAIProvider_trace)

lemma attempts_map_Fetch: "attempts (map Fetch rs) = []"
  by (induction rs) simp_all

lemma fetches_map_Fetch: "fetches (map Fetch rs) = rs"
  by (induction rs) simp_all

lemma try_providers_Cons:
  "try_providers e (p # ps) m h tr =
     (if succeeds e m h p
      then (Some (p, (case outcome e m h p of Inr r \<Rightarrow> r | Inl err \<Rightarrow> JUndefined)),
            tr @ Attempt p # map Fetch (sent e p m h))
      else try_providers e ps m h (tr @ Attempt p # map Fetch (sent e p m h)))"
  by (simp add: callAIProvider_eq succeeds_def split: sum.splits)


lemma try_providers_all_fail:
  "\<forall>p \<in> set ps. \<not> succeeds e m h p \<Longrightarrow>
     fst (try_providers e ps m h tr) = None
     \<and> attempts (snd (try_providers e ps m h tr)) = attempts tr @ ps"
  by (induction ps arbitrary: tr)
     (simp_all add: try_providers_Cons attempts_append attempts_map_Fetch del: try_providers.simps(2))

lemma try_providers_fetches:
  "set (fetches (snd (try_providers e ps m h tr)))
     \<subseteq> set (fetches tr) \<union> (\<Union>p \<in> set ps. set (sent e p m h))"
proof (induction ps arbitrary: tr)
  case Nil
  then show ?case by simp
next
  case (Cons p ps)
  show ?case
  proof (cases "succeeds e m h p")
    case True
    then show ?thesis
      by (auto simp add: try_providers_Cons fetches_append fetches_map_Fetch simp del: try_providers.simps(2))
  next
    case False
    then show ?thesis
      using Cons.IH [of "tr @ Attempt p # map Fetch (sent e p m h)"]
      by (auto simp add: try_providers_Cons fetches_append fetches_map_Fetch simp del: try_providers.simps(2))
  qed
qed








lemma chat_handler_valid:
  assumes "\<not> current_count rc (clientIP req) > 60"
      and "destructure (body req) = Inr (JStr m, history)"
      and "m \<noteq> []" and "length m \<le> 10000"
      and "sortedProviders ps \<noteq> []"
  shows "chat_handler e ps rc req =
     (case try_providers e (sortedProviders ps) m (history_or_empty history) [] of
        (Some (p, response), trace) \<Rightarrow>
          (Reply 200
             (ChatBody response (name p)
                (case model p of None \<Rightarrow> ''Unknown'' | Some md \<Rightarrow> if md \<noteq> [] then md else ''Unknown'')
                (date_iso e)
                (case startTime req of None \<Rightarrow> None | Some t \<Rightarrow> Some (date_now e - t))),
           rc(clientIP req \<mapsto> current_count rc (clientIP req) + 1), trace)
      | (None, trace) \<Rightarrow>
          (Reply 503
             (ErrorBody ''All AI providers are currently unavailable''
                ''Please try again in a moment. If the issue persists, contact support.''
                (Some (map name (sortedProviders ps)))),
           rc(clientIP req \<mapsto> current_count rc (clientIP req) + 1), trace))"
  using assms by (simp add: chat_handler_def Let_def split: prod.splits option.splits)




lemma chat_handler_trace:
  assumes "destructure (body req) = Inr (JStr m, history)"
  shows "snd (snd (chat_handler e ps rc req)) = []
         \<or> snd (snd (chat_handler e ps rc req)) =
             snd (try_providers e (sortedProviders ps) m (history_or_empty history) [])"
  using assms by (simp add: chat_handler_def Let_def split: prod.splits option.splits)

lemma build_messages_array:
  "build_messages m (JArr hs) = Inr (system_message # drop (length hs - 6) hs @ [user_message m])"
  by (simp add: build_messages_def bind_err_def)

lemma sent_array_body:
  assumes "r \<in> set (sent e p m (JArr hs))"
      and "req_body r = ChatCompletion mdl msgs mt tp st"
  shows "msgs = JObj [(''role'', JStr ''system''), (''content'', JStr ''You are JARVIS (Just A Rather Very Intelligent System), an advanced AI assistant with unlimited knowledge and capabilities.\<newline>\<newline>Guidelines:\<newline>- Provide helpful, accurate, and detailed responses\<newline>- Be engaging, supportive, and intelligent\<newline>- Use clear formatting with **bold** and *italic* when helpful\<newline>- No topic restrictions - answer any question asked\<newline>- Include examples and real-world applications when relevant\<newline>- Be encouraging and positive in your responses\<newline>\<newline>You can discuss any topic without limitations. Provide comprehensive, intelligent responses that demonstrate your advanced capabilities.'')]
                # drop (length hs - 6) hs
                @ [JObj [(''role'', JStr ''user''), (''content'', JStr m)]]"
  using assms
  by (auto simp add: sent_def build_messages_array openai_request_def hf_request_def
        system_message_def user_message_def systemPrompt_def split: if_splits)






subsection \<open>The chat-completion adapter\<close>

text \<open>
  C1. The claim: a successful chat-completion response whose \<^verbatim>\<open>choices\<close> list is non-empty
  and whose first element has a message content yields that content, so that with
  provider 1 answering 503 and provider 2 answering the hello body the result is the
  text from provider 2. The code reads \<^verbatim>\<open>data.choices.message\<close>, the member \<^verbatim>\<open>message\<close> of the
  list itself, which a JSON array never has: every body whose \<^verbatim>\<open>choices\<close> is a list is
  refused as an invalid format, and the two-provider scenario ends with both providers
  tried and a 503.
\<close>

theorem openai_list_of_choices_refused:
  "openai_extract p (JObj [(''choices'', JArr cs)]) = Inl (InvalidFormat (name p))
   \<and> openai_extract p hello_body = Inl (InvalidFormat (name p))
   \<and> fst (serve outage_env (API_PROVIDERS two_keys) Map.empty hi_request) =
       Reply 503
         (ErrorBody ''All AI providers are currently unavailable''
            ''Please try again in a moment. If the issue persists, contact support.''
            (Some [''Groq-Ultra-Fast'', ''DeepSeek-Intelligence'']))"
proof -
  have general: "openai_extract p (JObj [(''choices'', JArr ds)]) = Inl (InvalidFormat (name p))"
    for ds
    by (cases ds) (simp_all add: openai_extract_def bind_err_def)
  have hello: "openai_extract p hello_body = Inl (InvalidFormat (name p))"
    unfolding hello_body_def by (rule general)
  have scenario:
    "fst (serve outage_env (API_PROVIDERS two_keys) Map.empty hi_request) =
       Reply 503
         (ErrorBody ''All AI providers are currently unavailable''
            ''Please try again in a moment. If the issue persists, contact support.''
            (Some [''Groq-Ultra-Fast'', ''DeepSeek-Intelligence'']))"
    by code_simp
  from general hello scenario show ?thesis by blast
qed

subsection \<open>The generic-text adapter\<close>

text \<open>
  C7. The claim: a successful generic-text response yields \<^verbatim>\<open>generated_text\<close> from the
  first element of a list body or from a bare object, an \<^verbatim>\<open>error\<close> member raises with that
  message, and anything else raises an invalid-format error. The code tests
  \<^verbatim>\<open>data[0]\<close> but then reads \<^verbatim>\<open>data.generated_text\<close> from the list itself: every list body
  is refused as an invalid format. A bare object with a non-empty text yields it, and an
  object with a truthy \<^verbatim>\<open>error\<close> and no text raises with that error.
\<close>

theorem huggingface_list_body_refused:
  "hf_extract (JArr xs) = Inl HFInvalidFormat
   \<and> hf_extract (JArr [JObj [(''generated_text'', JStr ''Hello there, how can I help?'')]])
       = Inl HFInvalidFormat
   \<and> hf_extract (JObj [(''generated_text'', JStr (c # cs))]) = Inr (JStr (c # cs))
   \<and> hf_extract (JObj [(''error'', JStr (c # cs))]) = Inl (HFError (JStr (c # cs)))
   \<and> hf_extract (JObj []) = Inl HFInvalidFormat"
proof -
  have list_body: "hf_extract (JArr ys) = Inl HFInvalidFormat" for ys
    by (cases ys) (simp_all add: hf_extract_def bind_err_def)
  have bare: "hf_extract (JObj [(''generated_text'', JStr (c # cs))]) = Inr (JStr (c # cs))"
    by (simp add: hf_extract_def bind_err_def)
  have err: "hf_extract (JObj [(''error'', JStr (c # cs))]) = Inl (HFError (JStr (c # cs)))"
    by (simp add: hf_extract_def bind_err_def)
  have neither: "hf_extract (JObj []) = Inl HFInvalidFormat"
    by (simp add: hf_extract_def bind_err_def)
  from list_body bare err neither show ?thesis by blast
qed


subsection \<open>Admission\<close>

text \<open>
  C4. The claim: of 61 requests of one client within one window, requests 1 to 60 are
  admitted and request 61 is rejected with 429; a rejected request does not increment the
  counter; after the window resets the client is admitted again from count 1. The code
  rejects when the count read is greater than 60 (line 111, whose comment says
  "60 requests per minute per IP"), and the 61st request reads 60: of 62 requests in a
  fresh window the first 61 are admitted and only the 62nd is rejected. The counter is 61
  after 61 requests and still 61 after the rejected 62nd, and after a reset the next
  request is admitted and leaves the counter at 1.
\<close>

theorem rate_limit_admits_sixty_one:
  "map (\<lambda>x. status_of x = 429)
     (fst (serve_all e ps Map.empty (replicate 62 (req\<lparr>route := POST_api_chat\<rparr>))))
     = replicate 61 False @ [True]
   \<and> current_count
       (snd (serve_all e ps Map.empty (replicate 61 (req\<lparr>route := POST_api_chat\<rparr>))))
       (clientIP (req\<lparr>route := POST_api_chat\<rparr>)) = 61
   \<and> current_count
       (snd (serve_all e ps Map.empty (replicate 62 (req\<lparr>route := POST_api_chat\<rparr>))))
       (clientIP (req\<lparr>route := POST_api_chat\<rparr>)) = 61
   \<and> status_of (fst (serve e ps (window_reset rc) (req\<lparr>route := POST_api_chat\<rparr>))) \<noteq> 429
   \<and> current_count
       (fst (snd (serve e ps (window_reset rc) (req\<lparr>route := POST_api_chat\<rparr>))))
       (clientIP (req\<lparr>route := POST_api_chat\<rparr>)) = 1"
proof -
  let ?r = "req\<lparr>route := POST_api_chat\<rparr>"
  have r: "route ?r = POST_api_chat"
    by simp
  have fresh: "current_count Map.empty (clientIP ?r) = 0"
    by (simp add: current_count_def)
  have "map (\<lambda>i::nat. 0 + i > 60) [0..<62] = replicate 61 False @ [True]"
    by code_simp
  then have statuses:
    "map (\<lambda>x. status_of x = 429) (fst (serve_all e ps Map.empty (replicate 62 ?r)))
       = replicate 61 False @ [True]"
    by (simp only: serve_all_replicate_status [OF r] fresh)
  have c61: "current_count (snd (serve_all e ps Map.empty (replicate 61 ?r))) (clientIP ?r) = 61"
    by (simp add: serve_all_replicate_count [OF r] fresh)
  have c62: "current_count (snd (serve_all e ps Map.empty (replicate 62 ?r))) (clientIP ?r) = 61"
    by (simp add: serve_all_replicate_count [OF r] fresh)
  have reset: "current_count (window_reset rc) (clientIP ?r) = 0"
    by (simp add: current_count_def window_reset_def)
  have again: "status_of (fst (serve e ps (window_reset rc) ?r)) \<noteq> 429"
    by (simp add: serve_chat_429 [OF r] reset)
  have one: "current_count (fst (snd (serve e ps (window_reset rc) ?r))) (clientIP ?r) = 1"
    by (simp add: serve_chat_count [OF r] reset)
  from statuses c61 c62 again one show ?thesis
    by blast
qed



subsection \<open>Validation\<close>

text \<open>
  C3, as claimed: a request whose message is missing, not a string, empty after trimming
  (a white-space-only string included) or longer than 10,000 characters is answered 400
  and no provider is contacted. The handler does not trim: a message of one space passes
  both checks, the provider is called and the request is answered 200.
\<close>

theorem blank_message_reaches_provider:
  "status_of (fst (chat_handler hf_up_env (API_PROVIDERS hf_key) Map.empty blank_request)) = 200
   \<and> length (fetches (snd (snd
        (chat_handler hf_up_env (API_PROVIDERS hf_key) Map.empty blank_request)))) = 1"
  by code_simp

text \<open>
  C3, amended: a request with a readable body whose message is missing, not a string, the
  empty string or longer than 10,000 characters is answered 400 (429 when the client is
  over the rate limit), and in either case nothing is attempted and nothing is fetched.
\<close>

theorem invalid_message_contacts_no_provider:
  assumes "destructure (body req) = Inr (message, history)"
      and "message = JUndefined \<or> \<not> isString message \<or> message = JStr []
             \<or> length (string_of message) > 10000"
  shows "status_of (fst (chat_handler e ps rc req)) =
           (if current_count rc (clientIP req) > 60 then 429 else 400)
         \<and> snd (snd (chat_handler e ps rc req)) = []"
  using chat_handler_invalid [OF _ assms] chat_handler_429 [of e ps rc req]
    chat_handler_limited [of rc req e ps]
  by (cases "current_count rc (clientIP req) > 60") simp_all

theorem invalid_message_contacts_no_provider_witness:
  "destructure (body bare_request) = Inr (JUndefined, JUndefined)
   \<and> status_of (fst (chat_handler hf_up_env (API_PROVIDERS hf_key) Map.empty bare_request)) = 400
   \<and> snd (snd (chat_handler hf_up_env (API_PROVIDERS hf_key) Map.empty bare_request)) = []"
proof -
  have d: "destructure (body bare_request) = Inr (JUndefined, JUndefined)"
    by (simp add: destructure_def bare_request_def bind_err_def)
  have c: "\<not> current_count Map.empty (clientIP bare_request) > 60"
    by (simp add: current_count_def)
  from invalid_message_contacts_no_provider
         [OF d, of hf_up_env "API_PROVIDERS hf_key" Map.empty] c d
  show ?thesis
    by simp
qed

subsection \<open>The reply to a successful request\<close>

text \<open>
  C9. The claim: a successful reply carries the provider's name, its model, a timestamp
  and the elapsed time since admission as an integer number of milliseconds. The
  middleware that sets \<^verbatim>\<open>req.startTime\<close> is registered after the chat route, which
  answers without passing the request on, so the handler computes
  \<^verbatim>\<open>Date.now() - undefined\<close>: no reply of the application carries a number as
  \<^verbatim>\<open>processing_time_ms\<close>, and the successful reply of the scenario carries NaN
  (\<^verbatim>\<open>null\<close> on the wire) next to the provider's name, the model and the timestamp.
\<close>

theorem processing_time_is_never_a_number:
  "body_of (fst (serve e ps rc req)) \<noteq> ChatBody response prov mdl ts (Some t)
   \<and> fst (serve hf_up_env (API_PROVIDERS hf_key) Map.empty hi_request) =
       Reply 200 (ChatBody (JStr ''Hello there, how can I help?'') ''HuggingFace-Backup''
                    ''Unknown'' ''2024-01-01T00:00:00.000Z'' None)"
proof -
  have never: "body_of (fst (serve e ps rc req)) \<noteq> ChatBody response prov mdl ts (Some t)"
  proof (cases "route req")
    case GET_health
    then show ?thesis by (simp add: serve_def app_def)
  next
    case POST_api_chat
    then show ?thesis by (simp add: serve_chat chat_handler_no_time)
  next
    case Other_route
    then show ?thesis by (simp add: serve_def app_def)
  qed
  have scenario:
    "fst (serve hf_up_env (API_PROVIDERS hf_key) Map.empty hi_request) =
       Reply 200 (ChatBody (JStr ''Hello there, how can I help?'') ''HuggingFace-Backup''
                    ''Unknown'' ''2024-01-01T00:00:00.000Z'' None)"
    by code_simp
  from never scenario show ?thesis
    by blast
qed


subsection \<open>Failover\<close>







text \<open>
  C8. For every admitted request with a valid message and at least one eligible
  provider, when no eligible provider's attempt succeeds, the reply is 503 with the two
  fixed texts and, as \<^verbatim>\<open>providers_tried\<close>, the names of the eligible providers in the
  order tried; every one of them was attempted, once, in that order. The reply holds
  nothing else, so nothing of what the providers answered.
\<close>

theorem all_failed_lists_every_provider:
  assumes "current_count rc (clientIP req) \<le> 60"
      and "destructure (body req) = Inr (JStr m, history)"
      and "m \<noteq> []" and "length m \<le> 10000"
      and "sortedProviders ps \<noteq> []"
      and "\<forall>p \<in> set (sortedProviders ps). \<not> succeeds e m (history_or_empty history) p"
  shows "fst (chat_handler e ps rc req) =
           Reply 503
             (ErrorBody ''All AI providers are currently unavailable''
                ''Please try again in a moment. If the issue persists, contact support.''
                (Some (map name (sortedProviders ps))))
         \<and> attempts (snd (snd (chat_handler e ps rc req))) = sortedProviders ps"
proof -
  let ?run = "try_providers e (sortedProviders ps) m (history_or_empty history) []"
  from assms(1) have c: "\<not> current_count rc (clientIP req) > 60"
    by simp
  from try_providers_all_fail [OF assms(6), of "[]"]
  have none: "fst ?run = None" and all: "attempts (snd ?run) = sortedProviders ps"
    by simp_all
  then obtain trace where run: "?run = (None, trace)" and tr: "attempts trace = sortedProviders ps"
    by (cases ?run) simp
  show ?thesis
    by (simp add: chat_handler_valid [OF c assms(2,3,4,5)] run tr)
qed

theorem all_failed_lists_every_provider_witness:
  "current_count Map.empty (clientIP hi_request) \<le> 60
   \<and> destructure (body hi_request) = Inr (JStr ''Hi'', JUndefined)
   \<and> sortedProviders (API_PROVIDERS two_keys) \<noteq> []
   \<and> map (succeeds outage_env ''Hi'' (history_or_empty JUndefined))
         (sortedProviders (API_PROVIDERS two_keys)) = [False, False]
   \<and> fst (chat_handler outage_env (API_PROVIDERS two_keys) Map.empty hi_request) =
           Reply 503
             (ErrorBody ''All AI providers are currently unavailable''
                ''Please try again in a moment. If the issue persists, contact support.''
                (Some [''Groq-Ultra-Fast'', ''DeepSeek-Intelligence'']))
   \<and> map name (attempts (snd (snd (chat_handler outage_env (API_PROVIDERS two_keys) Map.empty hi_request))))
       = [''Groq-Ultra-Fast'', ''DeepSeek-Intelligence'']"
proof -
  have a: "current_count Map.empty (clientIP hi_request) \<le> 60"
    by (simp add: current_count_def)
  have d: "destructure (body hi_request) = Inr (JStr ''Hi'', JUndefined)"
    by (simp add: destructure_def hi_request_def bind_err_def)
  have s: "sortedProviders (API_PROVIDERS two_keys) \<noteq> []"
    by code_simp
  have f: "\<forall>p \<in> set (sortedProviders (API_PROVIDERS two_keys)).
          \<not> succeeds outage_env ''Hi'' (history_or_empty JUndefined) p"
    by code_simp
  have n: "map name (sortedProviders (API_PROVIDERS two_keys)) = [''Groq-Ultra-Fast'', ''DeepSeek-Intelligence'']"
    by code_simp
  have g: "map (succeeds outage_env ''Hi'' (history_or_empty JUndefined))
             (sortedProviders (API_PROVIDERS two_keys)) = [False, False]"
    by code_simp
  from all_failed_lists_every_provider [OF a d _ _ s f] a d s g n show ?thesis
    by simp
qed

subsection \<open>Conversation context\<close>

text \<open>
  C6. For every chat request whose history is a list of more than six turns, every
  chat-completion body that the handler sends carries as its messages the object with
  role \<^verbatim>\<open>system\<close> and the persona text of line 203, then the last six turns of the
  history in their order, then the object with role \<^verbatim>\<open>user\<close> and the current message,
  eight in all; an attempt on a chat-completion provider sends exactly one body, with the
  provider's model, these messages, its token budget (2000 when it has none), temperature
  0.7 and no streaming. The six turns are those at the positions \<open>length hs - 6\<close>
  onwards; when the turns are pairwise different, none of the earlier turns is among
  them.
\<close>

theorem history_truncated_to_last_six:
  assumes "destructure (body req) = Inr (JStr m, JArr hs)" and "length hs > 6"
  shows "let expected =
           JObj [(''role'', JStr ''system''), (''content'', JStr ''You are JARVIS (Just A Rather Very Intelligent System), an advanced AI assistant with unlimited knowledge and capabilities.\<newline>\<newline>Guidelines:\<newline>- Provide helpful, accurate, and detailed responses\<newline>- Be engaging, supportive, and intelligent\<newline>- Use clear formatting with **bold** and *italic* when helpful\<newline>- No topic restrictions - answer any question asked\<newline>- Include examples and real-world applications when relevant\<newline>- Be encouraging and positive in your responses\<newline>\<newline>You can discuss any topic without limitations. Provide comprehensive, intelligent responses that demonstrate your advanced capabilities.'')]
           # drop (length hs - 6) hs
           @ [JObj [(''role'', JStr ''user''), (''content'', JStr m)]]
         in (\<forall>r \<in> set (fetches (snd (snd (chat_handler e ps rc req)))).
               \<forall>mdl msgs mt tp st.
                 req_body r = ChatCompletion mdl msgs mt tp st \<longrightarrow> msgs = expected)
            \<and> (type p = ''openai-compatible'' \<longrightarrow>
                 map req_body (fetches (snd (callAIProvider e p m (JArr hs) [])))
                   = [ChatCompletion (model p) expected
                        (case maxTokens p of None \<Rightarrow> 2000 | Some n \<Rightarrow> if n = 0 then 2000 else n)
                        (7 / 10) False])
            \<and> length expected = 8
            \<and> length (drop (length hs - 6) hs) = 6
            \<and> (\<forall>i<6. drop (length hs - 6) hs ! i = hs ! (length hs - 6 + i))
            \<and> (distinct hs \<longrightarrow>
                 (\<forall>i < length hs - 6. hs ! i \<notin> set (drop (length hs - 6) hs)))"
proof -
  let ?expected = "JObj [(''role'', JStr ''system''), (''content'', JStr ''You are JARVIS (Just A Rather Very Intelligent System), an advanced AI assistant with unlimited knowledge and capabilities.\<newline>\<newline>Guidelines:\<newline>- Provide helpful, accurate, and detailed responses\<newline>- Be engaging, supportive, and intelligent\<newline>- Use clear formatting with **bold** and *italic* when helpful\<newline>- No topic restrictions - answer any question asked\<newline>- Include examples and real-world applications when relevant\<newline>- Be encouraging and positive in your responses\<newline>\<newline>You can discuss any topic without limitations. Provide comprehensive, intelligent responses that demonstrate your advanced capabilities.'')]
           # drop (length hs - 6) hs
           @ [JObj [(''role'', JStr ''user''), (''content'', JStr m)]]"
  have h: "history_or_empty (JArr hs) = JArr hs"
    by (simp add: history_or_empty_def)
  have sent: "msgs = ?expected"
    if "r \<in> set (fetches (snd (snd (chat_handler e ps rc req))))"
       "req_body r = ChatCompletion mdl msgs mt tp st" for r mdl msgs mt tp st
  proof -
    from chat_handler_trace [OF assms(1), of e ps rc] that(1)
    have "r \<in> set (fetches (snd (try_providers e (sortedProviders ps) m (JArr hs) [])))"
      by (auto simp add: h)
    with try_providers_fetches [of e "sortedProviders ps" m "JArr hs" "[]"]
    obtain q where "r \<in> set (sent e q m (JArr hs))"
      by auto
    then show ?thesis
      using that(2) by (rule sent_array_body)
  qed
  have one: "map req_body (fetches (snd (callAIProvider e p m (JArr hs) [])))
               = [ChatCompletion (model p) ?expected
                    (case maxTokens p of None \<Rightarrow> 2000 | Some n \<Rightarrow> if n = 0 then 2000 else n)
                    (7 / 10) False]"
    if "type p = ''openai-compatible''"
    using that
    by (simp add: callAIProvider_trace fetches_map_Fetch sent_def build_messages_array
          openai_request_def system_message_def user_message_def systemPrompt_def)
  have len: "length (drop (length hs - 6) hs) = 6"
    using assms(2) by simp
  then have len8: "length ?expected = 8"
    by simp
  have nth: "\<forall>i<6. drop (length hs - 6) hs ! i = hs ! (length hs - 6 + i)"
    using assms(2) by simp
  have gone: "\<forall>i < length hs - 6. hs ! i \<notin> set (drop (length hs - 6) hs)" if "distinct hs"
  proof (intro allI impI notI)
    fix i assume i: "i < length hs - 6" and "hs ! i \<in> set (drop (length hs - 6) hs)"
    then obtain j where j: "j < 6" "drop (length hs - 6) hs ! j = hs ! i"
      using len by (auto simp add: in_set_conv_nth)
    with nth have "hs ! (length hs - 6 + j) = hs ! i"
      by simp
    with that i j(1) assms(2) show False
      by (simp add: nth_eq_iff_index_eq)
  qed
  from sent one len len8 nth gone show ?thesis
    unfolding Let_def by blast
qed

theorem history_truncated_to_last_six_witness:
  "destructure (body long_history_request) = Inr (JStr ''Hi'', JArr seven_turns)
   \<and> length seven_turns > 6
   \<and> map req_body (fetches (snd (snd
        (chat_handler outage_env (API_PROVIDERS two_keys) Map.empty long_history_request))))
      = [ChatCompletion (Some ''mixtral-8x7b-32768'')
           [JObj [(''role'', JStr ''system''), (''content'', JStr ''You are JARVIS (Just A Rather Very Intelligent System), an advanced AI assistant with unlimited knowledge and capabilities.\<newline>\<newline>Guidelines:\<newline>- Provide helpful, accurate, and detailed responses\<newline>- Be engaging, supportive, and intelligent\<newline>- Use clear formatting with **bold** and *italic* when helpful\<newline>- No topic restrictions - answer any question asked\<newline>- Include examples and real-world applications when relevant\<newline>- Be encouraging and positive in your responses\<newline>\<newline>You can discuss any topic without limitations. Provide comprehensive, intelligent responses that demonstrate your advanced capabilities.'')],
            turn ''assistant'' ''two'', turn ''user'' ''three'', turn ''assistant'' ''four'',
            turn ''user'' ''five'', turn ''assistant'' ''six'', turn ''user'' ''seven'',
            JObj [(''role'', JStr ''user''), (''content'', JStr ''Hi'')]]
           2000 (7 / 10) False,
         ChatCompletion (Some ''deepseek-chat'')
           [JObj [(''role'', JStr ''system''), (''content'', JStr ''You are JARVIS (Just A Rather Very Intelligent System), an advanced AI assistant with unlimited knowledge and capabilities.\<newline>\<newline>Guidelines:\<newline>- Provide helpful, accurate, and detailed responses\<newline>- Be engaging, supportive, and intelligent\<newline>- Use clear formatting with **bold** and *italic* when helpful\<newline>- No topic restrictions - answer any question asked\<newline>- Include examples and real-world applications when relevant\<newline>- Be encouraging and positive in your responses\<newline>\<newline>You can discuss any topic without limitations. Provide comprehensive, intelligent responses that demonstrate your advanced capabilities.'')],
            turn ''assistant'' ''two'', turn ''user'' ''three'', turn ''assistant'' ''four'',
            turn ''user'' ''five'', turn ''assistant'' ''six'', turn ''user'' ''seven'',
            JObj [(''role'', JStr ''user''), (''content'', JStr ''Hi'')]]
           2000 (7 / 10) False]
   \<and> length (drop (length seven_turns - 6) seven_turns) = 6
   \<and> distinct seven_turns
   \<and> seven_turns ! 0 = turn ''user'' ''one''
   \<and> seven_turns ! 0 \<notin> set (drop (length seven_turns - 6) seven_turns)"
proof -
  have d: "destructure (body long_history_request) = Inr (JStr ''Hi'', JArr seven_turns)"
    by (simp add: destructure_def long_history_request_def bind_err_def)
  have l: "length seven_turns > 6"
    by (simp add: seven_turns_def)
  have dis: "distinct seven_turns"
    by (simp add: seven_turns_def turn_def)
  have ev: "map req_body (fetches (snd (snd
        (chat_handler outage_env (API_PROVIDERS two_keys) Map.empty long_history_request))))
      = [ChatCompletion (Some ''mixtral-8x7b-32768'')
           [JObj [(''role'', JStr ''system''), (''content'', JStr ''You are JARVIS (Just A Rather Very Intelligent System), an advanced AI assistant with unlimited knowledge and capabilities.\<newline>\<newline>Guidelines:\<newline>- Provide helpful, accurate, and detailed responses\<newline>- Be engaging, supportive, and intelligent\<newline>- Use clear formatting with **bold** and *italic* when helpful\<newline>- No topic restrictions - answer any question asked\<newline>- Include examples and real-world applications when relevant\<newline>- Be encouraging and positive in your responses\<newline>\<newline>You can discuss any topic without limitations. Provide comprehensive, intelligent responses that demonstrate your advanced capabilities.'')],
            turn ''assistant'' ''two'', turn ''user'' ''three'', turn ''assistant'' ''four'',
            turn ''user'' ''five'', turn ''assistant'' ''six'', turn ''user'' ''seven'',
            JObj [(''role'', JStr ''user''), (''content'', JStr ''Hi'')]]
           2000 (7 / 10) False,
         ChatCompletion (Some ''deepseek-chat'')
           [JObj [(''role'', JStr ''system''), (''content'', JStr ''You are JARVIS (Just A Rather Very Intelligent System), an advanced AI assistant with unlimited knowledge and capabilities.\<newline>\<newline>Guidelines:\<newline>- Provide helpful, accurate, and detailed responses\<newline>- Be engaging, supportive, and intelligent\<newline>- Use clear formatting with **bold** and *italic* when helpful\<newline>- No topic restrictions - answer any question asked\<newline>- Include examples and real-world applications when relevant\<newline>- Be encouraging and positive in your responses\<newline>\<newline>You can discuss any topic without limitations. Provide comprehensive, intelligent responses that demonstrate your advanced capabilities.'')],
            turn ''assistant'' ''two'', turn ''user'' ''three'', turn ''assistant'' ''four'',
            turn ''user'' ''five'', turn ''assistant'' ''six'', turn ''user'' ''seven'',
            JObj [(''role'', JStr ''user''), (''content'', JStr ''Hi'')]]
           2000 (7 / 10) False]"
    by code_simp
  have z: "(0::nat) < length seven_turns - 6"
    by (simp add: seven_turns_def)
  have f: "seven_turns ! 0 = turn ''user'' ''one''"
    by (simp add: seven_turns_def)
  from history_truncated_to_last_six [OF d l, of outage_env "API_PROVIDERS two_keys" Map.empty, unfolded Let_def]
    d l dis ev z f
  show ?thesis
    by blast
qed

end
